theory Spec2Isabelle
  imports Main "HOL-Library.State_Monad"
begin

section \<open>The feature list component (src/components/HomepageFeatures/index.tsx)\<close>

subsection \<open>React elements\<close>

text \<open>
  A JSX attribute value is either a string literal or a lookup in the CSS module
  \<^verbatim>\<open>styles\<close> (\<^verbatim>\<open>styles.features\<close>, \<^verbatim>\<open>styles.featureSvg\<close>), whose file is not part of
  the sources and which is therefore kept as a symbolic reference.
\<close>

datatype attr = Str string | StyleRef string

text \<open>
  The element tree a component returns.  \<open>Element tag props children\<close> is an element whose
  type is an intrinsic tag (\<^verbatim>\<open>div\<close>, \<^verbatim>\<open>section\<close>, \<^verbatim>\<open>p\<close>), the theme's \<^verbatim>\<open>Heading\<close> or an
  imported SVG component (named by the asset it was required from).
  \<open>FeatureElement key title Svg description\<close> is the element
  \<^verbatim>\<open><Feature key={idx} {...props} />\<close>: the component \<^verbatim>\<open>Feature\<close> not yet called, with its
  key and the three properties spread from the feature entry.
\<close>

datatype node =
    Text string
  | Fragment "node list"
  | Element string "(string \<times> attr) list" "node list"
  | FeatureElement nat string string node

record FeatureItem =
  title :: string
  Svg :: string
  description :: node

subsection \<open>JSX text\<close>

text \<open>
  The text between \<^verbatim>\<open><>\<close> and \<^verbatim>\<open></>\<close> spans several source lines.  The JSX compiler
  splits it at the line breaks, turns tabs into spaces, strips the leading spaces of every
  line but the first and the trailing spaces of every line but the last, drops the lines
  left empty and joins the others with one space.
\<close>

definition isBlank :: "char \<Rightarrow> bool" where
  "isBlank c = (c = CHR '' '' \<or> c = CHR 0x09)"

definition tabsToSpaces :: "string \<Rightarrow> string" where
  "tabsToSpaces l = map (\<lambda>c. if c = CHR 0x09 then CHR '' '' else c) l"

definition trimStart :: "string \<Rightarrow> string" where
  "trimStart l = dropWhile (\<lambda>c. c = CHR '' '') l"

definition trimEnd :: "string \<Rightarrow> string" where
  "trimEnd l = rev (dropWhile (\<lambda>c. c = CHR '' '') (rev l))"

fun cleanLines :: "bool \<Rightarrow> string list \<Rightarrow> string list" where
  "cleanLines isFirstLine [] = []"
| "cleanLines isFirstLine [l] =
     [if isFirstLine then tabsToSpaces l else trimStart (tabsToSpaces l)]"
| "cleanLines isFirstLine (l # l' # ls) =
     trimEnd (if isFirstLine then tabsToSpaces l else trimStart (tabsToSpaces l))
       # cleanLines False (l' # ls)"

fun joinWith :: "string \<Rightarrow> string list \<Rightarrow> string" where
  "joinWith sep [] = []"
| "joinWith sep [x] = x"
| "joinWith sep (x # y # ys) = x @ sep @ joinWith sep (y # ys)"

definition jsxText :: "string list \<Rightarrow> node" where
  "jsxText ls = Text (joinWith '' '' (filter (\<lambda>l. l \<noteq> []) (cleanLines True ls)))"

subsection \<open>The three feature entries\<close>

definition FeatureList :: "FeatureItem list" where
  "FeatureList =
    [ \<lparr> title = ''Hands-On Learning'',
        Svg = ''@site/static/img/undraw_docusaurus_mountain.svg'',
        description = Fragment [jsxText
          [ '''',
            ''        Learn by building with real TPC-H data and DuckDB. Each module includes '',
            ''        practical exercises that build on previous knowledge, creating a complete '',
            ''        analytics solution from foundation to advanced patterns.'',
            ''      '' ]] \<rparr>,
      \<lparr> title = ''Partner-Focused Content'',
        Svg = ''@site/static/img/undraw_docusaurus_tree.svg'',
        description = Fragment [jsxText
          [ '''',
            ''        Designed specifically for systems integrators and consultants. '',
            ''        Learn to position Cube Cloud, implement client solutions, and '',
            ''        build a successful analytics practice with enterprise-grade patterns.'',
            ''      '' ]] \<rparr>,
      \<lparr> title = ''Production Ready'',
        Svg = ''@site/static/img/undraw_docusaurus_react.svg'',
        description = Fragment [jsxText
          [ '''',
            ''        Master security, performance optimization, and troubleshooting.'',
            ''        Connect to BI tools, build custom applications, and implement'',
            ''        sophisticated analytics patterns your clients will love.'',
            ''      '' ]] \<rparr> ]"

subsection \<open>The components\<close>

text \<open>\<^verbatim>\<open>clsx\<close> joins the class names it is given that are not empty with a space.\<close>

definition clsx :: "string list \<Rightarrow> string" where
  "clsx cs = joinWith '' '' (filter (\<lambda>c. c \<noteq> []) cs)"

definition Feature :: "FeatureItem \<Rightarrow> node" where
  "Feature props =
    Element ''div'' [(''className'', Str (clsx [''col col--4'']))]
      [ Element ''div'' [(''className'', Str ''text--center'')]
          [ Element (Svg props)
              [(''className'', StyleRef ''featureSvg''), (''role'', Str ''img'')] [] ],
        Element ''div'' [(''className'', Str ''text--center padding-horiz--md'')]
          [ Element ''Heading'' [(''as'', Str ''h3'')] [Text (title props)],
            Element ''p'' [] [description props] ] ]"

text \<open>
  \<^verbatim>\<open>FeatureList.map((props, idx) => <Feature key={idx} {...props} />)\<close>: one element per
  entry, in the order of the array, the index of the entry as its key.  The component
  reads the module-level array; the model takes it as an argument, so that the state of
  the module is explicit.
\<close>

definition HomepageFeatures :: "FeatureItem list \<Rightarrow> node" where
  "HomepageFeatures fl =
    Element ''section'' [(''className'', StyleRef ''features'')]
      [ Element ''div'' [(''className'', Str ''container'')]
          [ Element ''div'' [(''className'', Str ''row'')]
              (map (\<lambda>(idx, props). FeatureElement idx (title props) (Svg props) (description props))
                   (enumerate 0 fl)) ] ]"

subsection \<open>Rendering\<close>

text \<open>
  The framework renders an element tree by calling each component element's function on
  its properties, until only host elements and text are left.
\<close>

fun render :: "node \<Rightarrow> node" where
  "render (Text s) = Text s"
| "render (Fragment ns) = Fragment (map render ns)"
| "render (Element tag props ns) = Element tag props (map render ns)"
| "render (FeatureElement k t s d) =
     Feature \<lparr> title = t, Svg = s, description = render d \<rparr>"

text \<open>The children of the first element with the given class name, searching depth first.\<close>

fun childrenOfClass :: "string \<Rightarrow> node \<Rightarrow> node list option"
  and firstOfClass :: "string \<Rightarrow> node list \<Rightarrow> node list option" where
  "childrenOfClass c (Text s) = None"
| "childrenOfClass c (Fragment ns) = firstOfClass c ns"
| "childrenOfClass c (Element tag props ns) =
     (if map_of props ''className'' = Some (Str c) then Some ns else firstOfClass c ns)"
| "childrenOfClass c (FeatureElement k t s d) = None"
| "firstOfClass c [] = None"
| "firstOfClass c (n # ns) =
     (case childrenOfClass c n of Some r \<Rightarrow> Some r | None \<Rightarrow> firstOfClass c ns)"

text \<open>The feature elements of the row, as returned, and the blocks they render to.\<close>

definition rowElements :: "node \<Rightarrow> node list" where
  "rowElements n = (case childrenOfClass ''row'' n of Some ns \<Rightarrow> ns | None \<Rightarrow> [])"

definition blocks :: "node \<Rightarrow> node list" where
  "blocks n = rowElements (render n)"

text \<open>All nodes of a tree: the node itself and the nodes below it.\<close>

fun subnodes :: "node \<Rightarrow> node list" where
  "subnodes (Text s) = [Text s]"
| "subnodes (Fragment ns) = Fragment ns # concat (map subnodes ns)"
| "subnodes (Element tag props ns) = Element tag props ns # concat (map subnodes ns)"
| "subnodes (FeatureElement k t s d) = FeatureElement k t s d # subnodes d"

definition contains :: "node \<Rightarrow> node \<Rightarrow> bool" where
  "contains block n = (n \<in> set (subnodes block))"

text \<open>The key of a feature element, and the feature entry it was made from.\<close>

fun keyOf :: "node \<Rightarrow> nat option" where
  "keyOf (FeatureElement k t s d) = Some k"
| "keyOf _ = None"

fun propsOf :: "node \<Rightarrow> FeatureItem option" where
  "propsOf (FeatureElement k t s d) = Some \<lparr> title = t, Svg = s, description = d \<rparr>"
| "propsOf _ = None"

section \<open>The site configuration (the Docusaurus configuration module)\<close>

subsection \<open>The configuration record\<close>

text \<open>
  One entry of the navigation bar or of a footer group.  The entries of the source are
  object literals with different fields; a field an entry does not have is \<open>None\<close>.
\<close>

record LinkItem =
  itemType :: "string option"
  sidebarId :: "string option"
  position :: "string option"
  label :: string
  to :: "string option"
  href :: "string option"

record Logo =
  alt :: string
  src :: string

record Navbar =
  navbarTitle :: string
  logo :: Logo
  navbarItems :: "LinkItem list"

record FooterGroup =
  groupTitle :: string
  items :: "LinkItem list"

record Footer =
  style :: string
  links :: "FooterGroup list"
  copyright :: string

text \<open>The two Prism themes are objects of an imported package, kept by name.\<close>

record Prism =
  theme :: string
  darkTheme :: string

record ThemeConfig =
  image :: string
  navbar :: Navbar
  footer :: Footer
  prism :: Prism

record Future =
  v4 :: bool

record I18n =
  defaultLocale :: string
  locales :: "string list"

record DocsOptions =
  sidebarPath :: string
  editUrl :: string

record ThemeOptions =
  customCss :: string

record PresetOptions =
  docs :: DocsOptions
  blog :: bool
  presetTheme :: ThemeOptions

record Config =
  siteTitle :: string
  tagline :: string
  favicon :: string
  future :: Future
  url :: string
  baseUrl :: string
  organizationName :: string
  projectName :: string
  onBrokenLinks :: string
  onBrokenMarkdownLinks :: string
  i18n :: I18n
  presets :: "(string \<times> PresetOptions) list"
  themeConfig :: ThemeConfig

subsection \<open>Numbers in template literals\<close>

text \<open>
  \<^verbatim>\<open>${new Date().getFullYear()}\<close> converts the year, an integer, to its decimal
  numeral, with a leading minus sign below zero.
\<close>

definition digitChar :: "nat \<Rightarrow> char" where
  "digitChar d = char_of (48 + d)"

fun digits :: "nat \<Rightarrow> string" where
  "digits n = (if n < 10 then [digitChar n] else digits (n div 10) @ [digitChar (n mod 10)])"

declare digits.simps [simp del]

definition numberToString :: "int \<Rightarrow> string" where
  "numberToString n = (if n < 0 then CHR ''-'' # digits (nat (- n)) else digits (nat n))"

subsection \<open>The configuration value\<close>

text \<open>
  The module evaluates one object literal.  The only thing it reads from outside is the
  clock, in the copyright line; \<open>fullYear\<close> is what \<^verbatim>\<open>new Date().getFullYear()\<close> returns
  when the module is evaluated.  The copyright sign is the character U+00A9.
\<close>

definition untyped :: "string \<Rightarrow> LinkItem" where
  "untyped l = \<lparr> itemType = None, sidebarId = None, position = None, label = l,
                 to = None, href = None \<rparr>"

definition config :: "int \<Rightarrow> Config" where
  "config fullYear =
    \<lparr> siteTitle = ''Cube Partner Training'',
      tagline = ''Master the semantic layer for analytics success'',
      favicon = ''img/favicon.ico'',
      future = \<lparr> v4 = True \<rparr>,
      url = ''https://cube-partner-training.github.io'',
      baseUrl = ''/cube-partner-training/'',
      organizationName = ''cube-partner-training'',
      projectName = ''cube-partner-training'',
      onBrokenLinks = ''throw'',
      onBrokenMarkdownLinks = ''warn'',
      i18n = \<lparr> defaultLocale = ''en'', locales = [''en''] \<rparr>,
      presets =
        [ (''classic'',
           \<lparr> docs = \<lparr> sidebarPath = ''./sidebars.ts'',
                      editUrl = ''https://github.com/cube-partner-training/cube-partner-training/tree/main/'' \<rparr>,
             blog = False,
             presetTheme = \<lparr> customCss = ''./src/css/custom.css'' \<rparr> \<rparr>) ],
      themeConfig =
        \<lparr> image = ''img/docusaurus-social-card.jpg'',
          navbar =
            \<lparr> navbarTitle = ''Cube Partner Training'',
              logo = \<lparr> alt = ''Cube Logo'', src = ''img/logo.svg'' \<rparr>,
              navbarItems =
                [ (untyped ''Training Modules'')
                    \<lparr> itemType := Some ''docSidebar'', sidebarId := Some ''tutorialSidebar'',
                      position := Some ''left'' \<rparr>,
                  (untyped ''Cube.dev'')
                    \<lparr> href := Some ''https://cube.dev'', position := Some ''right'' \<rparr>,
                  (untyped ''Cube Cloud'')
                    \<lparr> href := Some ''https://cubecloud.dev'', position := Some ''right'' \<rparr>,
                  (untyped ''GitHub'')
                    \<lparr> href := Some ''https://github.com/cube-js/cube'',
                      position := Some ''right'' \<rparr> ] \<rparr>,
          footer =
            \<lparr> style = ''dark'',
              links =
                [ \<lparr> groupTitle = ''Training'',
                    items =
                      [ (untyped ''Getting Started'') \<lparr> to := Some ''/docs/intro'' \<rparr>,
                        (untyped ''Module 1: Foundation'')
                          \<lparr> to := Some ''/docs/module-1-foundation'' \<rparr>,
                        (untyped ''Module 2: Getting Started'')
                          \<lparr> to := Some ''/docs/module-2-getting-started'' \<rparr> ] \<rparr>,
                  \<lparr> groupTitle = ''Cube Resources'',
                    items =
                      [ (untyped ''Cube.dev'') \<lparr> href := Some ''https://cube.dev'' \<rparr>,
                        (untyped ''Cube Cloud'') \<lparr> href := Some ''https://cubecloud.dev'' \<rparr>,
                        (untyped ''Documentation'') \<lparr> href := Some ''https://cube.dev/docs'' \<rparr>,
                        (untyped ''Community Slack'')
                          \<lparr> href := Some ''https://cube.dev/slack'' \<rparr> ] \<rparr>,
                  \<lparr> groupTitle = ''Support'',
                    items =
                      [ (untyped ''GitHub Issues'')
                          \<lparr> href := Some ''https://github.com/cube-js/cube/issues'' \<rparr>,
                        (untyped ''Stack Overflow'')
                          \<lparr> href := Some ''https://stackoverflow.com/questions/tagged/cube.js'' \<rparr>,
                        (untyped ''Partner Program'')
                          \<lparr> href := Some ''https://cube.dev/partners'' \<rparr> ] \<rparr> ],
              copyright =
                ''Copyright '' @ [CHR 0xA9] @ '' '' @ numberToString fullYear
                  @ '' Cube Dev, Inc. Built with Docusaurus.'' \<rparr>,
          prism = \<lparr> theme = ''prismThemes.github'', darkTheme = ''prismThemes.dracula'' \<rparr> \<rparr> \<rparr>"

text \<open>A configuration with its copyright line replaced, every other field kept.\<close>

definition withCopyright :: "string \<Rightarrow> Config \<Rightarrow> Config" where
  "withCopyright line c =
    c \<lparr> themeConfig := (themeConfig c) \<lparr> footer := (footer (themeConfig c)) \<lparr> copyright := line \<rparr> \<rparr> \<rparr>"

definition copyrightLine :: "Config \<Rightarrow> string" where
  "copyrightLine c = copyright (footer (themeConfig c))"

subsection \<open>Navigation and footer entries, and their targets\<close>

definition navigationEntries :: "Config \<Rightarrow> LinkItem list" where
  "navigationEntries c = navbarItems (navbar (themeConfig c))"

definition footerEntries :: "Config \<Rightarrow> LinkItem list" where
  "footerEntries c = concat (map items (links (footer (themeConfig c))))"

definition allEntries :: "Config \<Rightarrow> LinkItem list" where
  "allEntries c = navigationEntries c @ footerEntries c"

definition startsWith :: "string \<Rightarrow> string \<Rightarrow> bool" where
  "startsWith s p = (take (length p) s = p)"

text \<open>
  An absolute https URL: the scheme, a host of lower-case letters, digits, dots and
  hyphens that is not empty, and then nothing or a path that begins with a slash and holds
  no blank.
\<close>

definition hostChar :: "char \<Rightarrow> bool" where
  "hostChar c = (c \<in> set ''abcdefghijklmnopqrstuvwxyz0123456789.-'')"

definition absoluteHttpsUrl :: "string \<Rightarrow> bool" where
  "absoluteHttpsUrl u =
    (startsWith u ''https://'' \<and>
     takeWhile hostChar (drop 8 u) \<noteq> [] \<and>
     (dropWhile hostChar (drop 8 u) = [] \<or> hd (dropWhile hostChar (drop 8 u)) = CHR ''/'') \<and>
     list_all (\<lambda>c. \<not> isBlank c) u)"

definition internalTarget :: "LinkItem \<Rightarrow> bool" where
  "internalTarget e = (case to e of Some p \<Rightarrow> startsWith p ''/docs/'' | None \<Rightarrow> False)"

definition externalTarget :: "LinkItem \<Rightarrow> bool" where
  "externalTarget e = (case href e of Some u \<Rightarrow> absoluteHttpsUrl u | None \<Rightarrow> False)"

text \<open>Exactly one kind of target: an internal one and no \<^verbatim>\<open>href\<close>, or an external one and no \<^verbatim>\<open>to\<close>.\<close>

definition oneKindOfTarget :: "LinkItem \<Rightarrow> bool" where
  "oneKindOfTarget e =
    ((internalTarget e \<and> href e = None) \<or> (externalTarget e \<and> to e = None))"

definition isDocSidebar :: "LinkItem \<Rightarrow> bool" where
  "isDocSidebar e = (itemType e = Some ''docSidebar'')"

definition isPlainLink :: "LinkItem \<Rightarrow> bool" where
  "isPlainLink e = (itemType e = None)"

subsection \<open>Documentation pages\<close>

text \<open>
  The pages under \<^verbatim>\<open>docs/\<close>: the file, the \<^verbatim>\<open>sidebar_position\<close> of the front matter where
  there is one, and the first-level heading.  The file names of the pages of modules 1,
  3, 4 and 5 are known.  Those of the introduction and of the pages of modules 2, 6 and 7
  are the names of the links that lead to them: the Learning Path of the introduction
  links to every module as \<^verbatim>\<open>./module-N-name/\<close>, which for modules 1, 3, 4 and 5 is the
  directory of the page, and the footer of the configuration links to the introduction as
  \<^verbatim>\<open>/docs/intro\<close>.  No link leads to the last page, whose file is left open.  No page sets
  a \<^verbatim>\<open>slug\<close> or an \<^verbatim>\<open>id\<close> in its front matter.
\<close>

record DocPage =
  docFile :: "string option"
  sidebarPosition :: "nat option"
  heading :: string

definition docPages :: "DocPage list" where
  "docPages =
    [ \<lparr> docFile = Some ''docs/intro.md'', sidebarPosition = Some 1,
        heading = ''Cube Partner Training Program'' \<rparr>,
      \<lparr> docFile = Some ''docs/module-1-foundation/index.md'', sidebarPosition = None,
        heading = ''Module 1: Foundation'' \<rparr>,
      \<lparr> docFile = Some ''docs/module-2-getting-started/index.md'', sidebarPosition = None,
        heading = ''Module 2: Getting Started'' \<rparr>,
      \<lparr> docFile = Some ''docs/module-3-data-modeling/index.md'', sidebarPosition = None,
        heading = ''Module 3: Data Modeling'' \<rparr>,
      \<lparr> docFile = Some ''docs/module-4-security/index.md'', sidebarPosition = None,
        heading = ''Module 4: Security & Access Control'' \<rparr>,
      \<lparr> docFile = Some ''docs/module-5-performance/index.md'', sidebarPosition = None,
        heading = ''Module 5: Performance & Caching'' \<rparr>,
      \<lparr> docFile = Some ''docs/module-6-apis-integration/index.md'', sidebarPosition = None,
        heading = ''Module 6: APIs & Integration'' \<rparr>,
      \<lparr> docFile = Some ''docs/module-7-advanced/index.md'', sidebarPosition = None,
        heading = ''Module 7: Advanced Concepts'' \<rparr>,
      \<lparr> docFile = None, sidebarPosition = Some 3,
        heading = ''Share Your Implementation'' \<rparr> ]"

text \<open>
  The site generator's routing, which is its own: the file \<^verbatim>\<open>docs/<id>/index.md\<close> is served
  at \<^verbatim>\<open>/docs/<id>/\<close> and the file \<^verbatim>\<open>docs/<id>.md\<close> at \<^verbatim>\<open>/docs/<id>\<close>, the same for \<^verbatim>\<open>.mdx\<close>,
  all below the base URL of the site, which a link's path is relative to as well.  A path
  resolves to a page when the two are equal up to a slash at the end.
\<close>

definition endsWith :: "string \<Rightarrow> string \<Rightarrow> bool" where
  "endsWith s suf = (length suf \<le> length s \<and> drop (length s - length suf) s = suf)"

definition dropEnd :: "nat \<Rightarrow> string \<Rightarrow> string" where
  "dropEnd n s = take (length s - n) s"

definition docRoute :: "string \<Rightarrow> string option" where
  "docRoute f =
    (if startsWith f ''docs/'' \<and> endsWith f ''/index.md'' then Some (CHR ''/'' # dropEnd 8 f)
     else if startsWith f ''docs/'' \<and> endsWith f ''/index.mdx'' then Some (CHR ''/'' # dropEnd 9 f)
     else if startsWith f ''docs/'' \<and> endsWith f ''.md'' then Some (CHR ''/'' # dropEnd 3 f)
     else if startsWith f ''docs/'' \<and> endsWith f ''.mdx'' then Some (CHR ''/'' # dropEnd 4 f)
     else None)"

definition withoutEndSlash :: "string \<Rightarrow> string" where
  "withoutEndSlash p = (if 1 < length p \<and> last p = CHR ''/'' then butlast p else p)"

definition pageRoute :: "DocPage \<Rightarrow> string option" where
  "pageRoute page = Option.bind (docFile page) docRoute"

definition servedAt :: "string \<Rightarrow> DocPage \<Rightarrow> bool" where
  "servedAt p page =
    (case pageRoute page of
       Some r \<Rightarrow> withoutEndSlash r = withoutEndSlash p
     | None \<Rightarrow> False)"

definition pagesAt :: "DocPage list \<Rightarrow> string \<Rightarrow> DocPage list" where
  "pagesAt pages p = filter (servedAt p) pages"


text \<open>
  Modelled from the spec: the sidebar file \<^verbatim>\<open>sidebars.ts\<close>, which is not in the sources.
  The specification has the documentation tree navigable via a left sidebar; the sidebar
  \<^verbatim>\<open>tutorialSidebar\<close>, the one the configuration names, holds the pages of the
  documentation tree, the pages with a sidebar position first and in the order of their
  positions, the others after them.
\<close>

definition positionOf :: "DocPage \<Rightarrow> nat" where
  "positionOf page = (case sidebarPosition page of Some n \<Rightarrow> n | None \<Rightarrow> 0)"

definition sidebarPages :: "DocPage list \<Rightarrow> DocPage list" where
  "sidebarPages pages =
    sort_key positionOf (filter (\<lambda>page. sidebarPosition page \<noteq> None) pages)
      @ filter (\<lambda>page. sidebarPosition page = None) pages"

definition sidebars :: "DocPage list \<Rightarrow> (string \<times> DocPage list) list" where
  "sidebars pages = [(''tutorialSidebar'', sidebarPages pages)]"






text \<open>
  A relative link \<^verbatim>\<open>./name/\<close> of a page that is served directly below \<^verbatim>\<open>/docs/\<close> leads to
  \<^verbatim>\<open>/docs/name/\<close>.
\<close>

definition relativeLinkPath :: "string \<Rightarrow> string option" where
  "relativeLinkPath l = (if startsWith l ''./'' then Some (''/docs/'' @ drop 2 l) else None)"

text \<open>
  The first-level headings of the module pages found in the sources, in the order the
  sources hold them, and the entries of the Learning Path of the introduction page: the
  text and the target of each heading's link.
\<close>

definition modulePageHeadings :: "string list" where
  "modulePageHeadings =
    [ ''Module 1: Foundation'',
      ''Module 3: Data Modeling'',
      ''Module 2: Getting Started'',
      ''Module 6: APIs & Integration'',
      ''Module 4: Security & Access Control'',
      ''Module 5: Performance & Caching'',
      ''Module 7: Advanced Concepts'' ]"

definition learningPath :: "(string \<times> string) list" where
  "learningPath =
    [ (''Module 1: Foundation'', ''./module-1-foundation/''),
      (''Module 2: Getting Started'', ''./module-2-getting-started/''),
      (''Module 3: Data Modeling'', ''./module-3-data-modeling/''),
      (''Module 4: Security & Access Control'', ''./module-4-security/''),
      (''Module 5: Performance & Caching'', ''./module-5-performance/''),
      (''Module 6: APIs & Integration'', ''./module-6-apis-integration/''),
      (''Module 7: Advanced Concepts'', ''./module-7-advanced/'') ]"

text \<open>The number \<open>N\<close> of a heading \<^verbatim>\<open>Module N: ...\<close>, for one decimal digit \<open>N\<close>.\<close>

definition digitValue :: "char \<Rightarrow> nat option" where
  "digitValue c =
    (if c \<in> set ''0123456789'' then Some (of_char c - 48) else None)"

definition moduleNumber :: "string \<Rightarrow> nat option" where
  "moduleNumber h =
    (if startsWith h ''Module '' \<and> startsWith (drop 8 h) '':''
     then (case drop 7 h of c # _ \<Rightarrow> digitValue c | [] \<Rightarrow> None)
     else None)"

section \<open>The components as computations on the state of the modules\<close>

text \<open>
  Each module binds one value when it is loaded: the array of feature entries and the
  configuration object.  Both are mutable objects of the language, and any function that
  runs later could change them.  The state holds the two objects; a computation is a
  function from the state before to a result and the state after.
\<close>

record ModuleState =
  featureList :: "FeatureItem list"
  siteConfig :: Config

type_synonym 'a computation = "(ModuleState, 'a) state"

definition initialState :: "int \<Rightarrow> ModuleState" where
  "initialState fullYear = \<lparr> featureList = FeatureList, siteConfig = config fullYear \<rparr>"

text \<open>
  \<^verbatim>\<open>array.map(callback)\<close> calls the callback on each element and its index, from the first
  element to the last, and collects the results in a new array.  The callback runs in the
  state the calls before it have left.
\<close>

fun arrayMap :: "('a \<Rightarrow> nat \<Rightarrow> 'b computation) \<Rightarrow> nat \<Rightarrow> 'a list \<Rightarrow> 'b list computation" where
  "arrayMap callback idx [] = State_Monad.return []"
| "arrayMap callback idx (x # xs) =
     do { y \<leftarrow> callback x idx;
          ys \<leftarrow> arrayMap callback (Suc idx) xs;
          State_Monad.return (y # ys) }"

text \<open>The arrow function \<^verbatim>\<open>(props, idx) => <Feature key={idx} {...props} />\<close>.\<close>

definition featureElement :: "FeatureItem \<Rightarrow> nat \<Rightarrow> node computation" where
  "featureElement props idx =
     State_Monad.return (FeatureElement idx (title props) (Svg props) (description props))"

text \<open>
  The component \<^verbatim>\<open>HomepageFeatures\<close>, called by the framework: it reads the array the
  module binds, maps it and wraps the result.
\<close>

definition callHomepageFeatures :: "node computation" where
  "callHomepageFeatures =
     do { s \<leftarrow> State_Monad.get;
          elements \<leftarrow> arrayMap featureElement 0 (featureList s);
          State_Monad.return
            (Element ''section'' [(''className'', StyleRef ''features'')]
              [ Element ''div'' [(''className'', Str ''container'')]
                  [ Element ''div'' [(''className'', Str ''row'')] elements ] ]) }"

text \<open>The component \<^verbatim>\<open>Feature\<close>, called by the framework on the properties of an element.\<close>

definition callFeature :: "FeatureItem \<Rightarrow> node computation" where
  "callFeature props = State_Monad.return (Feature props)"

text \<open>
  The framework's rendering, as a computation: the component of every component element
  is called, one call after the other, each in the state the calls before it have left.
\<close>

fun renderTree :: "node \<Rightarrow> node computation"
  and renderChildren :: "node list \<Rightarrow> node list computation" where
  "renderTree (Text s) = State_Monad.return (Text s)"
| "renderTree (Fragment ns) =
     do { ns' \<leftarrow> renderChildren ns; State_Monad.return (Fragment ns') }"
| "renderTree (Element tag props ns) =
     do { ns' \<leftarrow> renderChildren ns; State_Monad.return (Element tag props ns') }"
| "renderTree (FeatureElement k t s d) =
     do { d' \<leftarrow> renderTree d; callFeature \<lparr> title = t, Svg = s, description = d' \<rparr> }"
| "renderChildren [] = State_Monad.return []"
| "renderChildren (n # ns) =
     do { n' \<leftarrow> renderTree n; ns' \<leftarrow> renderChildren ns; State_Monad.return (n' # ns') }"

text \<open>\<^verbatim>\<open>export default config\<close>: whoever imports the module gets the object it binds.\<close>

definition exportConfig :: "Config computation" where
  "exportConfig = do { s \<leftarrow> State_Monad.get; State_Monad.return (siteConfig s) }"

text \<open>
  The operations of the repository: rendering the feature list, which is a call of
  \<^verbatim>\<open>HomepageFeatures\<close> and the rendering of the tree it returns, and the export of the
  configuration.  A sequence of operations runs them one after the other.
\<close>

datatype operation = RenderFeatures | ExportConfig

datatype outcome = Rendered node | Exported Config

fun perform :: "operation \<Rightarrow> outcome computation" where
  "perform RenderFeatures =
     do { tree \<leftarrow> callHomepageFeatures;
          page \<leftarrow> renderTree tree;
          State_Monad.return (Rendered page) }"
| "perform ExportConfig =
     do { c \<leftarrow> exportConfig; State_Monad.return (Exported c) }"

definition performAll :: "operation list \<Rightarrow> outcome list computation" where
  "performAll ops = traverse_list perform ops"

definition renderedBlocks :: "outcome \<Rightarrow> node list" where
  "renderedBlocks r = (case r of Rendered n \<Rightarrow> rowElements n | Exported c \<Rightarrow> [])"

text \<open>What each operation returns when nothing has changed the two objects.\<close>

definition expectedOutcome :: "int \<Rightarrow> operation \<Rightarrow> outcome" where
  "expectedOutcome fullYear op =
    (case op of
       RenderFeatures \<Rightarrow> Rendered (render (HomepageFeatures FeatureList))
     | ExportConfig \<Rightarrow> Exported (config fullYear))"

section \<open>What the site generator makes of the configuration\<close>

text \<open>
  Modelled from the spec: the rendering of the footer, which belongs to the site
  generator's theme and is not in the sources.  The specification has one column for
  each link group and one link for each item, display order being declaration order.
\<close>

definition renderFooter :: "Footer \<Rightarrow> (string \<times> string list) list" where
  "renderFooter f = map (\<lambda>g. (groupTitle g, map label (items g))) (links f)"

text \<open>
  Modelled from the spec: the assembly of the site, which is the site generator's, and
  the sidebar file \<^verbatim>\<open>sidebars.ts\<close>, which is not in the sources.  The specification has
  static pages with a feature section, a documentation tree, a left sidebar and a top
  navigation bar.  The feature section is the rendered component, the documentation tree
  is the module pages, the sidebar (which the generator shows at the left of the
  documentation pages) is the one the navigation bar's \<^verbatim>\<open>docSidebar\<close> item names, and the
  top navigation bar is the configured items.
\<close>

record SiteOutput =
  featureSection :: node
  documentationTree :: "string list"
  leftSidebar :: "string list"
  topNavigation :: "LinkItem list"

definition siteOutput :: "int \<Rightarrow> SiteOutput" where
  "siteOutput fullYear =
    \<lparr> featureSection = render (HomepageFeatures FeatureList),
      documentationTree = modulePageHeadings,
      leftSidebar =
        List.map_filter sidebarId (filter isDocSidebar (navigationEntries (config fullYear))),
      topNavigation = navigationEntries (config fullYear) \<rparr>"

definition pointsToDocs :: "LinkItem \<Rightarrow> bool" where
  "pointsToDocs e = ((isDocSidebar e \<and> sidebarId e \<noteq> None) \<or> internalTarget e)"

section \<open>Properties of the feature list component\<close>

lemma map_snd_enumerate_fun: "map (\<lambda>x. f (snd x)) (enumerate n xs) = map f xs"
  by (induction xs arbitrary: n) simp_all

lemma map_fst_enumerate_fun:
  "map (\<lambda>x. f (fst x)) (enumerate n xs) = map f [n..<n + length xs]"
  by (induction xs arbitrary: n) (simp_all add: upt_rec)

lemma rowElements_HomepageFeatures:
  "rowElements (HomepageFeatures fl) =
     map (\<lambda>(idx, props). FeatureElement idx (title props) (Svg props) (description props))
         (enumerate 0 fl)"
  by (simp add: rowElements_def HomepageFeatures_def)

lemma blocks_HomepageFeatures:
  "blocks (HomepageFeatures fl) =
     map (\<lambda>p. Feature \<lparr> title = title p, Svg = Svg p, description = render (description p) \<rparr>) fl"
  by (simp add: blocks_def rowElements_def HomepageFeatures_def case_prod_unfold comp_def
      map_snd_enumerate_fun
        [where f = "\<lambda>p. Feature \<lparr>title = title p, Svg = Svg p, description = render (description p)\<rparr>"])

text \<open>The descriptions hold no component element, so rendering leaves them as declared.\<close>

lemma blocks_FeatureList: "blocks (HomepageFeatures FeatureList) = map Feature FeatureList"
  unfolding blocks_HomepageFeatures by (simp add: FeatureList_def jsxText_def)

lemma FeatureList_descriptions:
  "map description FeatureList =
    [ Fragment [Text ''Learn by building with real TPC-H data and DuckDB. Each module includes practical exercises that build on previous knowledge, creating a complete analytics solution from foundation to advanced patterns.''],
      Fragment [Text ''Designed specifically for systems integrators and consultants. Learn to position Cube Cloud, implement client solutions, and build a successful analytics practice with enterprise-grade patterns.''],
      Fragment [Text ''Master security, performance optimization, and troubleshooting. Connect to BI tools, build custom applications, and implement sophisticated analytics patterns your clients will love.''] ]"
  by (simp add: FeatureList_def jsxText_def tabsToSpaces_def trimStart_def trimEnd_def)

lemma Feature_contains_title: "contains (Feature p) (Text (title p))"
  by (simp add: contains_def Feature_def)

lemma node_in_subnodes: "d \<in> set (subnodes d)"
  by (cases d) simp_all

lemma Feature_contains_description: "contains (Feature p) (description p)"
  by (simp add: contains_def Feature_def node_in_subnodes)

text \<open>
  Claim C1.  Rendering the feature list gives exactly three blocks, one for each entry of
  \<open>FeatureList\<close> and in the order of the declaration: the blocks are the images of the
  entries under \<open>Feature\<close>, and each block contains the title and the description of its
  entry as they are declared.
\<close>

theorem features_render_three_blocks:
  "length (blocks (HomepageFeatures FeatureList)) = 3 \<and>
   blocks (HomepageFeatures FeatureList) = map Feature FeatureList \<and>
   list_all2 (\<lambda>block entry. contains block (Text (title entry)) \<and> contains block (description entry))
     (blocks (HomepageFeatures FeatureList)) FeatureList \<and>
   map title FeatureList = [''Hands-On Learning'', ''Partner-Focused Content'', ''Production Ready'']"
proof -
  have len: "length FeatureList = 3" by (simp add: FeatureList_def)
  have "list_all2 (\<lambda>block entry. contains block (Text (title entry)) \<and> contains block (description entry))
     (map Feature FeatureList) FeatureList"
    by (simp add: list_all2_map1 list_all2_same Feature_contains_title Feature_contains_description)
  moreover have "map title FeatureList = [''Hands-On Learning'', ''Partner-Focused Content'', ''Production Ready'']"
    by (simp add: FeatureList_def)
  ultimately show ?thesis by (simp add: blocks_FeatureList len)
qed

text \<open>
  Claim C7.  The elements of the row follow the order of the entries, and the key of each
  is the position of its entry: for any list of entries the keys are \<open>0, 1, \<dots>\<close> in this
  order, hence distinct and the same at every rendering, and for the three declared
  entries they are 0, 1 and 2.
\<close>

theorem feature_keys_are_positions:
  "map keyOf (rowElements (HomepageFeatures fl)) = map Some [0..<length fl] \<and>
   map propsOf (rowElements (HomepageFeatures fl)) = map Some fl \<and>
   distinct (map keyOf (rowElements (HomepageFeatures fl))) \<and>
   map keyOf (rowElements (HomepageFeatures FeatureList)) = [Some 0, Some 1, Some 2]"
proof -
  have keys: "map keyOf (rowElements (HomepageFeatures fl)) = map Some [0..<length fl]" for fl
    unfolding rowElements_HomepageFeatures
    by (simp add: case_prod_unfold comp_def map_fst_enumerate_fun)
  have props: "map propsOf (rowElements (HomepageFeatures fl)) = map Some fl"
    unfolding rowElements_HomepageFeatures
    by (simp add: case_prod_unfold comp_def
        map_snd_enumerate_fun [where f = "\<lambda>p. Some \<lparr>title = title p, Svg = Svg p, description = description p\<rparr>"])
  have "distinct (map Some [0..<length fl])"
    by (simp add: distinct_map)
  moreover have "map keyOf (rowElements (HomepageFeatures FeatureList)) = [Some 0, Some 1, Some 2]"
    unfolding keys by (simp add: FeatureList_def upt_rec)
  ultimately show ?thesis using keys props by simp
qed

section \<open>Properties of the operations\<close>

lemma arrayMap_featureElement:
  "run_state (arrayMap featureElement i fl) s =
     (map (\<lambda>(idx, props). FeatureElement idx (title props) (Svg props) (description props))
        (enumerate i fl), s)"
  by (induction fl arbitrary: i) (simp_all add: featureElement_def)

lemma callHomepageFeatures_run:
  "run_state callHomepageFeatures s = (HomepageFeatures (featureList s), s)"
  by (simp add: callHomepageFeatures_def HomepageFeatures_def arrayMap_featureElement)

lemma renderTree_run:
  "run_state (renderTree n) s = (render n, s)"
  "run_state (renderChildren ns) s = (map render ns, s)"
  by (induction n and ns arbitrary: s and s rule: renderTree_renderChildren.induct)
     (simp_all add: callFeature_def)

lemma perform_run:
  "run_state (perform op) s =
     ((case op of
         RenderFeatures \<Rightarrow> Rendered (render (HomepageFeatures (featureList s)))
       | ExportConfig \<Rightarrow> Exported (siteConfig s)), s)"
  by (cases op) (simp_all add: callHomepageFeatures_run renderTree_run exportConfig_def)

lemma performAll_run:
  "run_state (performAll ops) s = (map (\<lambda>op. fst (run_state (perform op) s)) ops, s)"
  unfolding performAll_def
  by (induction ops) (simp_all add: perform_run)

text \<open>
  A callback that changes the state is a computation as well, and the state it leaves
  is the state after the mapping.
\<close>

lemma arrayMap_threads_state:
  "run_state
     (arrayMap (\<lambda>x idx. do { s \<leftarrow> State_Monad.get;
                             _ \<leftarrow> State_Monad.set (s\<lparr>featureList := []\<rparr>);
                             State_Monad.return x }) 0 [a]) s
   = ([a], s\<lparr>featureList := []\<rparr>)"
  by simp

text \<open>
  Claim C4.  Rendering the feature list any number of times in a row, from the state the
  modules are loaded in and whatever the clock said then, gives the same structure every
  time: each of the \<open>n\<close> results is the rendering of the declared list, with the same three
  blocks in the same order.  More generally, in any sequence of operations every
  rendering returns this structure, whatever ran before it.
\<close>

theorem rendering_is_repeatable:
  "fst (run_state (performAll (replicate n RenderFeatures)) (initialState fullYear)) =
     replicate n (Rendered (render (HomepageFeatures FeatureList))) \<and>
   map renderedBlocks
       (fst (run_state (performAll (replicate n RenderFeatures)) (initialState fullYear))) =
     replicate n (map Feature FeatureList) \<and>
   fst (run_state (performAll ops) (initialState fullYear)) = map (expectedOutcome fullYear) ops"
proof -
  have one: "fst (run_state (perform op) (initialState fullYear)) = expectedOutcome fullYear op" for op
    unfolding perform_run by (cases op) (simp_all add: expectedOutcome_def initialState_def)
  have all: "fst (run_state (performAll ops) (initialState fullYear)) = map (expectedOutcome fullYear) ops" for ops
    by (simp add: performAll_run one)
  have blocks: "renderedBlocks (Rendered (render (HomepageFeatures FeatureList))) = map Feature FeatureList"
    using blocks_FeatureList by (simp add: renderedBlocks_def blocks_def)
  have "map (expectedOutcome fullYear) (replicate n RenderFeatures) =
      replicate n (Rendered (render (HomepageFeatures FeatureList)))"
    by (simp add: expectedOutcome_def)
  with all [of "replicate n RenderFeatures"] all [of ops] blocks show ?thesis by simp
qed

text \<open>
  Claim C8.  No operation changes the configuration record or the feature list: the two
  components, the rendering of any tree and the export of the configuration leave the
  state they run in, and so does any sequence of operations, so that from the state the
  modules are loaded in both values are still the ones defined.
\<close>

theorem operations_leave_state_unchanged:
  "snd (run_state callHomepageFeatures s) = s \<and>
   snd (run_state (callFeature props) s) = s \<and>
   snd (run_state (renderTree n) s) = s \<and>
   snd (run_state exportConfig s) = s \<and>
   snd (run_state (perform op) s) = s \<and>
   snd (run_state (performAll ops) s) = s \<and>
   featureList (snd (run_state (performAll ops) (initialState fullYear))) = FeatureList \<and>
   siteConfig (snd (run_state (performAll ops) (initialState fullYear))) = config fullYear"
  by (simp add: callHomepageFeatures_run callFeature_def renderTree_run exportConfig_def
      perform_run performAll_run initialState_def)

section \<open>Properties of the configuration\<close>

text \<open>
  Claim C3.  The configuration sets \<^verbatim>\<open>onBrokenLinks\<close> to \<^verbatim>\<open>'throw'\<close>, the policy value that
  fails the build, and \<^verbatim>\<open>onBrokenMarkdownLinks\<close> to \<^verbatim>\<open>'warn'\<close>, the value that only warns.
\<close>

theorem broken_link_policy:
  "onBrokenLinks (config fullYear) = ''throw'' \<and>
   onBrokenMarkdownLinks (config fullYear) = ''warn''"
  by (simp add: config_def)

subsection \<open>The clock in the copyright line\<close>

lemma digitChar_inj: "a < 10 \<Longrightarrow> b < 10 \<Longrightarrow> digitChar a = digitChar b \<Longrightarrow> a = b"
proof -
  assume a: "a < 10" and b: "b < 10" and eq: "digitChar a = digitChar b"
  from eq have "of_char (char_of (48 + a) :: char) = (of_char (char_of (48 + b) :: char) :: nat)"
    by (simp add: digitChar_def)
  with a b show "a = b" by simp
qed

lemma digitChar_not_minus: "d < 10 \<Longrightarrow> digitChar d \<noteq> CHR ''-''"
proof
  assume d: "d < 10" and eq: "digitChar d = CHR ''-''"
  from eq have "of_char (char_of (48 + d) :: char) = (of_char (CHR ''-'') :: nat)"
    by (simp add: digitChar_def)
  with d show False by simp
qed

lemma digits_nonempty: "digits n \<noteq> []"
  by (subst digits.simps) simp

lemma digits_length_one: "length (digits n) = 1 \<longleftrightarrow> n < 10"
  by (subst digits.simps) (simp add: digits_nonempty)

lemma digits_hd_not_minus: "hd (digits n) \<noteq> CHR ''-''"
proof (induction n rule: digits.induct)
  case (1 n)
  show ?case
  proof (cases "n < 10")
    case True
    then show ?thesis by (subst digits.simps) (simp add: digitChar_not_minus)
  next
    case False
    with 1 show ?thesis by (subst digits.simps) (simp add: digits_nonempty)
  qed
qed

lemma digits_inj: "digits n = digits m \<Longrightarrow> n = m"
proof (induction n arbitrary: m rule: digits.induct)
  case (1 n)
  show ?case
  proof (cases "n < 10")
    case True
    with "1.prems" have "length (digits m) = 1"
      using digits_length_one [of n] by simp
    then have m: "m < 10" by (simp only: digits_length_one)
    from "1.prems" True m have "digitChar n = digitChar m"
      by (simp add: digits.simps [of n] digits.simps [of m])
    with True m show ?thesis by (rule digitChar_inj)
  next
    case False
    with "1.prems" have "length (digits m) \<noteq> 1"
      using digits_length_one [of n] by simp
    then have m: "\<not> m < 10" by (simp only: digits_length_one not_False_eq_True)
    from "1.prems" False m
    have eq: "digits (n div 10) @ [digitChar (n mod 10)] = digits (m div 10) @ [digitChar (m mod 10)]"
      by (simp add: digits.simps [of n] digits.simps [of m])
    then have "digits (n div 10) = digits (m div 10)" by simp
    with False have d: "n div 10 = m div 10" by (rule "1.IH")
    from eq have "digitChar (n mod 10) = digitChar (m mod 10)" by simp
    then have r: "n mod 10 = m mod 10" by (intro digitChar_inj) simp_all
    from d r show ?thesis by (metis div_mult_mod_eq)
  qed
qed

lemma numberToString_inj: "numberToString a = numberToString b \<Longrightarrow> a = b"
proof -
  assume eq: "numberToString a = numberToString b"
  have neg: "CHR ''-'' # digits k \<noteq> digits l" for k l
  proof
    assume "CHR ''-'' # digits k = digits l"
    then have "hd (digits l) = CHR ''-''" by (metis list.sel(1))
    with digits_hd_not_minus show False by blast
  qed
  show "a = b"
  proof (cases "a < 0")
    case True
    show ?thesis
    proof (cases "b < 0")
      case bneg: True
      with True eq have "digits (nat (- a)) = digits (nat (- b))"
        by (simp add: numberToString_def)
      then have "nat (- a) = nat (- b)" by (rule digits_inj)
      with True bneg show ?thesis by simp
    next
      case False
      with True eq neg show ?thesis by (simp add: numberToString_def)
    qed
  next
    case False
    show ?thesis
    proof (cases "b < 0")
      case True
      with False eq neg [of "nat (- b)" "nat a"] show ?thesis
        by (simp add: numberToString_def)
    next
      case bpos: False
      with False eq have "digits (nat a) = digits (nat b)"
        by (simp add: numberToString_def)
      then have "nat a = nat b" by (rule digits_inj)
      with False bpos show ?thesis by simp
    qed
  qed
qed

lemma withCopyright_config: "withCopyright line (config y1) = withCopyright line (config y2)"
  by (simp add: withCopyright_def config_def)

lemma copyrightLine_config:
  "copyrightLine (config y) =
     ''Copyright '' @ [CHR 0xA9] @ '' '' @ numberToString y @ '' Cube Dev, Inc. Built with Docusaurus.''"
  by (simp add: copyrightLine_def config_def)

text \<open>
  Claim C10.  The configuration is a function of the clock's year alone, and the year
  reaches the copyright line only: evaluated under two different years, the two
  configurations have different copyright lines, become equal once the copyright line of
  both is replaced by any one line, and the first is the second with the first's copyright
  line.
\<close>

theorem config_varies_only_in_copyright:
  assumes "y1 \<noteq> y2"
  shows "copyrightLine (config y1) \<noteq> copyrightLine (config y2) \<and>
         withCopyright line (config y1) = withCopyright line (config y2) \<and>
         config y1 = withCopyright (copyrightLine (config y1)) (config y2)"
proof -
  have "copyrightLine (config y1) \<noteq> copyrightLine (config y2)"
  proof
    assume "copyrightLine (config y1) = copyrightLine (config y2)"
    then have "numberToString y1 @ '' Cube Dev, Inc. Built with Docusaurus.''
             = numberToString y2 @ '' Cube Dev, Inc. Built with Docusaurus.''"
      unfolding copyrightLine_config by simp
    then have "numberToString y1 = numberToString y2" by simp
    then have "y1 = y2" by (rule numberToString_inj)
    with assms show False by simp
  qed
  moreover have "config y1 = withCopyright (copyrightLine (config y1)) (config y2)"
    by (simp add: withCopyright_def copyrightLine_def config_def)
  ultimately show ?thesis by (simp add: withCopyright_config)
qed

text \<open>
  The years 2025 and 2026: the two copyright lines differ in the year they print, and
  nothing else differs.
\<close>

theorem config_varies_only_in_copyright_witness:
  "(2025::int) \<noteq> 2026 \<and>
   copyrightLine (config 2025) = ''Copyright '' @ [CHR 0xA9] @ '' 2025 Cube Dev, Inc. Built with Docusaurus.'' \<and>
   copyrightLine (config 2026) = ''Copyright '' @ [CHR 0xA9] @ '' 2026 Cube Dev, Inc. Built with Docusaurus.'' \<and>
   copyrightLine (config 2025) \<noteq> copyrightLine (config 2026) \<and>
   config 2025 = withCopyright (copyrightLine (config 2025)) (config 2026)"
proof -
  have h: "(2025::int) \<noteq> 2026" by simp
  have a: "copyrightLine (config 2025) = ''Copyright '' @ [CHR 0xA9] @ '' 2025 Cube Dev, Inc. Built with Docusaurus.''"
    unfolding copyrightLine_config
    by (simp add: numberToString_def digits.simps [of 2025] digits.simps [of 2026] digits.simps [of 202]
        digits.simps [of 20] digits.simps [of 2] digitChar_def char_of_eq_iff)
  have b: "copyrightLine (config 2026) = ''Copyright '' @ [CHR 0xA9] @ '' 2026 Cube Dev, Inc. Built with Docusaurus.''"
    unfolding copyrightLine_config
    by (simp add: numberToString_def digits.simps [of 2025] digits.simps [of 2026] digits.simps [of 202]
        digits.simps [of 20] digits.simps [of 2] digitChar_def char_of_eq_iff)
  from config_varies_only_in_copyright [OF h] a b h show ?thesis by blast
qed

subsection \<open>Targets of the navigation and footer entries\<close>

lemma config_navigationEntries:
  "navigationEntries (config y) =
    [ \<lparr> itemType = Some ''docSidebar'', sidebarId = Some ''tutorialSidebar'',
        position = Some ''left'', label = ''Training Modules'', to = None, href = None \<rparr>,
      \<lparr> itemType = None, sidebarId = None, position = Some ''right'', label = ''Cube.dev'',
        to = None, href = Some ''https://cube.dev'' \<rparr>,
      \<lparr> itemType = None, sidebarId = None, position = Some ''right'', label = ''Cube Cloud'',
        to = None, href = Some ''https://cubecloud.dev'' \<rparr>,
      \<lparr> itemType = None, sidebarId = None, position = Some ''right'', label = ''GitHub'',
        to = None, href = Some ''https://github.com/cube-js/cube'' \<rparr> ]"
  by (simp add: navigationEntries_def config_def untyped_def)

lemma config_footerEntries:
  "footerEntries (config y) =
    [ (untyped ''Getting Started'') \<lparr> to := Some ''/docs/intro'' \<rparr>,
      (untyped ''Module 1: Foundation'') \<lparr> to := Some ''/docs/module-1-foundation'' \<rparr>,
      (untyped ''Module 2: Getting Started'') \<lparr> to := Some ''/docs/module-2-getting-started'' \<rparr>,
      (untyped ''Cube.dev'') \<lparr> href := Some ''https://cube.dev'' \<rparr>,
      (untyped ''Cube Cloud'') \<lparr> href := Some ''https://cubecloud.dev'' \<rparr>,
      (untyped ''Documentation'') \<lparr> href := Some ''https://cube.dev/docs'' \<rparr>,
      (untyped ''Community Slack'') \<lparr> href := Some ''https://cube.dev/slack'' \<rparr>,
      (untyped ''GitHub Issues'') \<lparr> href := Some ''https://github.com/cube-js/cube/issues'' \<rparr>,
      (untyped ''Stack Overflow'')
        \<lparr> href := Some ''https://stackoverflow.com/questions/tagged/cube.js'' \<rparr>,
      (untyped ''Partner Program'') \<lparr> href := Some ''https://cube.dev/partners'' \<rparr> ]"
  by (simp add: footerEntries_def config_def)

lemma urls_absolute:
  "absoluteHttpsUrl ''https://cube.dev''"
  "absoluteHttpsUrl ''https://cubecloud.dev''"
  "absoluteHttpsUrl ''https://github.com/cube-js/cube''"
  "absoluteHttpsUrl ''https://cube.dev/docs''"
  "absoluteHttpsUrl ''https://cube.dev/slack''"
  "absoluteHttpsUrl ''https://github.com/cube-js/cube/issues''"
  "absoluteHttpsUrl ''https://stackoverflow.com/questions/tagged/cube.js''"
  "absoluteHttpsUrl ''https://cube.dev/partners''"
  by (simp_all add: absoluteHttpsUrl_def startsWith_def hostChar_def isBlank_def)

text \<open>
  Claim C9, amended.  No entry of the navigation bar or of a footer group has both a
  \<^verbatim>\<open>to\<close> and an \<^verbatim>\<open>href\<close>.  Every entry without a \<^verbatim>\<open>type\<close> has exactly one kind of target: an
  internal one, a \<^verbatim>\<open>to\<close> that starts with \<^verbatim>\<open>/docs/\<close>, or an external one, an \<^verbatim>\<open>href\<close> that
  is an absolute https URL.  The one entry with a \<^verbatim>\<open>type\<close>, the navigation bar's
  \<^verbatim>\<open>docSidebar\<close> item, has neither: it names the sidebar \<^verbatim>\<open>tutorialSidebar\<close>.
\<close>

theorem link_targets_of_one_kind:
  "list_all oneKindOfTarget (filter isPlainLink (allEntries (config y))) \<and>
   filter (\<lambda>e. \<not> isPlainLink e) (allEntries (config y)) =
     [ \<lparr> itemType = Some ''docSidebar'', sidebarId = Some ''tutorialSidebar'',
         position = Some ''left'', label = ''Training Modules'', to = None, href = None \<rparr> ] \<and>
   list_all (\<lambda>e. to e = None \<or> href e = None) (allEntries (config y))"
  unfolding allEntries_def config_navigationEntries config_footerEntries
  by (simp add: untyped_def isPlainLink_def oneKindOfTarget_def internalTarget_def
      externalTarget_def urls_absolute startsWith_def)

text \<open>
  Claim C9 as stated fails at the first item of the navigation bar, which has no \<^verbatim>\<open>to\<close>
  and no \<^verbatim>\<open>href\<close>, so not every entry has exactly one kind of target.
\<close>

theorem docSidebar_item_has_neither_target:
  "hd (navigationEntries (config 2025)) =
     \<lparr> itemType = Some ''docSidebar'', sidebarId = Some ''tutorialSidebar'',
       position = Some ''left'', label = ''Training Modules'', to = None, href = None \<rparr> \<and>
   \<not> oneKindOfTarget (hd (navigationEntries (config 2025))) \<and>
   \<not> list_all oneKindOfTarget (allEntries (config 2025))"
  unfolding allEntries_def config_navigationEntries
  by (simp add: oneKindOfTarget_def internalTarget_def externalTarget_def)

subsection \<open>Resolution of the targets\<close>

lemma docPages_routes:
  "map pageRoute docPages =
    [ Some ''/docs/intro'', Some ''/docs/module-1-foundation/'',
      Some ''/docs/module-2-getting-started/'', Some ''/docs/module-3-data-modeling/'',
      Some ''/docs/module-4-security/'', Some ''/docs/module-5-performance/'',
      Some ''/docs/module-6-apis-integration/'', Some ''/docs/module-7-advanced/'', None ]"
  by (simp add: docPages_def pageRoute_def docRoute_def startsWith_def endsWith_def dropEnd_def)




lemma learningPath_links_lead_to_their_pages:
  "map (\<lambda>(t, l). map_option (\<lambda>p. map heading (pagesAt docPages p)) (relativeLinkPath l))
     learningPath = map (\<lambda>(t, l). Some [t]) learningPath"
  by (simp add: learningPath_def relativeLinkPath_def pagesAt_def servedAt_def docPages_def
      withoutEndSlash_def pageRoute_def docRoute_def startsWith_def endsWith_def dropEnd_def)


section \<open>Properties of the generated site\<close>

text \<open>
  Claim C5.  The rendered footer has its columns in the order the groups are declared in,
  and the links of each column in the order the items are declared in: for the
  configuration, Training, Cube Resources and Support, each with its items in the order of
  the source.
\<close>

theorem footer_order_preserved:
  "map fst (renderFooter f) = map groupTitle (links f) \<and>
   map snd (renderFooter f) = map (\<lambda>g. map label (items g)) (links f) \<and>
   renderFooter (footer (themeConfig (config y))) =
     [ (''Training'', [''Getting Started'', ''Module 1: Foundation'', ''Module 2: Getting Started'']),
       (''Cube Resources'', [''Cube.dev'', ''Cube Cloud'', ''Documentation'', ''Community Slack'']),
       (''Support'', [''GitHub Issues'', ''Stack Overflow'', ''Partner Program'']) ]"
  by (simp add: renderFooter_def comp_def config_def untyped_def)

lemma module_numbers:
  "map moduleNumber modulePageHeadings = [Some 1, Some 3, Some 2, Some 6, Some 4, Some 5, Some 7]"
  by (simp add: modulePageHeadings_def moduleNumber_def startsWith_def digitValue_def)

lemma learningPath_numbers:
  "map (\<lambda>(t, l). moduleNumber t) learningPath = map Some [1, 2, 3, 4, 5, 6, 7]"
  by (simp add: learningPath_def moduleNumber_def startsWith_def digitValue_def)

text \<open>
  Claim C6.  The site output has a feature section of three cards and a documentation
  tree of seven module pages, numbered 1 to 7, which are also the seven modules the
  introduction's Learning Path links to; it has the sidebar \<^verbatim>\<open>tutorialSidebar\<close> of the
  configured sidebar file at the left, and a top navigation bar of which every item points to the documentation (the
  \<^verbatim>\<open>docSidebar\<close> item) or to an external URL of the product (the three others).
\<close>

theorem site_output_structure:
  "length (rowElements (featureSection (siteOutput y))) = 3 \<and>
   length (documentationTree (siteOutput y)) = 7 \<and>
   sort (List.map_filter moduleNumber (documentationTree (siteOutput y))) = [1, 2, 3, 4, 5, 6, 7] \<and>
   map (\<lambda>(t, l). moduleNumber t) learningPath = map Some [1, 2, 3, 4, 5, 6, 7] \<and>
   leftSidebar (siteOutput y) = [''tutorialSidebar''] \<and>
   map (\<lambda>(name, options). sidebarPath (docs options)) (presets (config y)) = [''./sidebars.ts''] \<and>
   map label (filter pointsToDocs (topNavigation (siteOutput y))) = [''Training Modules''] \<and>
   List.map_filter href (filter externalTarget (topNavigation (siteOutput y))) =
     [''https://cube.dev'', ''https://cubecloud.dev'', ''https://github.com/cube-js/cube''] \<and>
   list_all (\<lambda>e. pointsToDocs e \<or> externalTarget e) (topNavigation (siteOutput y))"
proof -
  have cards: "length (rowElements (featureSection (siteOutput y))) = 3"
    using blocks_FeatureList by (simp add: siteOutput_def blocks_def FeatureList_def)
  have tree: "documentationTree (siteOutput y) = modulePageHeadings"
    by (simp add: siteOutput_def)
  have n: "length modulePageHeadings = 7"
    by (simp add: modulePageHeadings_def)
  have "List.map_filter moduleNumber modulePageHeadings = [1, 3, 2, 6, 4, 5, 7]"
    using module_numbers by (simp add: map_filter_def modulePageHeadings_def)
  then have sorted: "sort (List.map_filter moduleNumber (documentationTree (siteOutput y))) = [1, 2, 3, 4, 5, 6, 7]"
    by (simp add: tree)
  have side: "leftSidebar (siteOutput y) = [''tutorialSidebar'']"
    by (simp add: siteOutput_def config_navigationEntries isDocSidebar_def map_filter_def)
  have path: "map (\<lambda>(name, options). sidebarPath (docs options)) (presets (config y)) = [''./sidebars.ts'']"
    by (simp add: config_def)
  have nav: "topNavigation (siteOutput y) = navigationEntries (config y)"
    by (simp add: siteOutput_def)
  have docs: "map label (filter pointsToDocs (topNavigation (siteOutput y))) = [''Training Modules'']"
    unfolding nav config_navigationEntries
    by (simp add: pointsToDocs_def isDocSidebar_def internalTarget_def)
  have ext: "List.map_filter href (filter externalTarget (topNavigation (siteOutput y))) =
     [''https://cube.dev'', ''https://cubecloud.dev'', ''https://github.com/cube-js/cube'']"
    unfolding nav config_navigationEntries
    by (simp add: externalTarget_def urls_absolute map_filter_def)
  have all: "list_all (\<lambda>e. pointsToDocs e \<or> externalTarget e) (topNavigation (siteOutput y))"
    unfolding nav config_navigationEntries
    by (simp add: pointsToDocs_def isDocSidebar_def externalTarget_def urls_absolute)
  from cards tree n sorted learningPath_numbers side path docs ext all show ?thesis by simp
qed

end
